theory Spec2Isabelle
  imports Main
begin

section \<open>MAVBot: the Slack event router and its handlers\<close>

text \<open>
  The development embeds the \<open>start\<close> command of MAVBot (package \<open>cmd\<close>): the receive
  loop of \<open>startCmd\<close> and the handlers \<open>handleEventMessage\<close>,
  \<open>handleAppMentionEvent\<close>, \<open>handleSlashCommand\<close>, \<open>handleHelloCommand\<close>,
  \<open>handleIsArticleGood\<close> and \<open>handleInteractiveEvent\<close>.

  Conventions of the embedding.
  \<^item> Go strings are byte strings: \<open>string\<close>.
  \<^item> Structs of the Slack library are records holding the fields the program reads or
    writes; field names carry a short prefix of the struct they belong to.
  \<^item> The type tags the program switches on (\<open>socketmode.EventType\<close>, the outer type of
    an Events-API event, \<open>slack.InteractionType\<close>) are string constants of the Slack
    library. Their spelling is not part of this program, so each is a datatype: one
    constructor per constant the program names, and one constructor standing for every
    other tag.
  \<^item> A value of type \<open>interface{}\<close> that the program inspects with a type assertion
    or a type switch is a datatype with one constructor per dynamic type the program
    asks for, and one for everything else (including \<open>nil\<close>).
  \<^item> \<open>event.Request\<close> is a pointer that is \<open>nil\<close> on the events the socket client
    raises by itself, so it is an \<open>option\<close>, and dereferencing \<open>None\<close> is the
    run-time panic of Go. Pointers that the decoder of the Slack library always
    allocates (the \<open>*AppMentionEvent\<close> of an inner event, the \<open>*BlockAction\<close> entries
    of an interaction) are modelled by the value they point to.
  \<^item> Everything the program does to the outside is recorded in a \<open>World\<close>: the calls
    of \<open>client.GetUserInfo\<close>, of \<open>client.PostMessage\<close>, of \<open>socketClient.Ack\<close>, and
    the lines given to package \<open>log\<close>. What the outside answers (the result of a
    lookup, of a post, the clock) is an \<open>Env\<close> of functions that may depend on
    everything recorded so far.
\<close>

subsection \<open>Errors\<close>

text \<open>
  \<open>Error s\<close> is an error with message \<open>s\<close> (\<open>errors.New\<close>, or an error of the Slack
  client); \<open>Errorf p e\<close> is \<open>fmt.Errorf(p + ": %w", e)\<close>, the error \<open>e\<close> wrapped.
\<close>

datatype error = Error string | Errorf string error

subsection \<open>Data of the Slack library\<close>

record User =
  usr_Name :: string

record AttachmentField =
  fld_Title :: string
  fld_Value :: string

datatype TextType = MarkdownType | PlainTextType

record TextBlockObject =
  tbo_Type :: TextType
  tbo_Text :: string

record OptionBlockObject =
  opt_Text :: TextBlockObject
  opt_Value :: string
  opt_Description :: "TextBlockObject option"

record CheckboxGroupsBlockElement =
  cbg_ActionID :: string
  cbg_Options :: "OptionBlockObject list"

datatype Accessory = CheckboxGroupsAccessory CheckboxGroupsBlockElement

record SectionBlock =
  sec_Text :: "TextBlockObject option"
  sec_Fields :: "TextBlockObject list"
  sec_Accessory :: "Accessory option"

datatype Block = Section SectionBlock

record Blocks =
  BlockSet :: "Block list"

record Attachment =
  att_Color :: string
  att_Pretext :: string
  att_Text :: string
  att_Fields :: "AttachmentField list"
  att_Blocks :: Blocks

text \<open>The zero value \<open>slack.Attachment{}\<close>.\<close>

definition emptyAttachment :: Attachment where
  "emptyAttachment =
     \<lparr>att_Color = [], att_Pretext = [], att_Text = [], att_Fields = [],
      att_Blocks = \<lparr>BlockSet = []\<rparr>\<rparr>"

text \<open>The constructors of the Slack library that \<open>handleIsArticleGood\<close> calls.\<close>

definition NewOptionBlockObject ::
  "string \<Rightarrow> TextBlockObject \<Rightarrow> TextBlockObject \<Rightarrow> OptionBlockObject" where
  "NewOptionBlockObject v text description =
     \<lparr>opt_Text = text, opt_Value = v, opt_Description = Some description\<rparr>"

definition NewCheckboxGroupsBlockElement ::
  "string \<Rightarrow> OptionBlockObject list \<Rightarrow> CheckboxGroupsBlockElement" where
  "NewCheckboxGroupsBlockElement actionID options =
     \<lparr>cbg_ActionID = actionID, cbg_Options = options\<rparr>"

definition NewAccessory :: "CheckboxGroupsBlockElement \<Rightarrow> Accessory" where
  "NewAccessory element = CheckboxGroupsAccessory element"

definition NewSectionBlock ::
  "TextBlockObject option \<Rightarrow> TextBlockObject list \<Rightarrow> Accessory option \<Rightarrow> Block" where
  "NewSectionBlock textObj fieldObjs accessory =
     Section \<lparr>sec_Text = textObj, sec_Fields = fieldObjs, sec_Accessory = accessory\<rparr>"

subsection \<open>Incoming events\<close>

record AppMentionEvent =
  ame_User :: string
  ame_Text :: string
  ame_Channel :: string

text \<open>
  The dynamic type of \<open>innerEvent.Data\<close>: a \<open>*slackevents.AppMentionEvent\<close>, or
  anything else (another inner event, or \<open>nil\<close>), kept by the name of its type.
\<close>

datatype InnerEventData = AppMention AppMentionEvent | OtherInnerEvent string

record EventsAPIInnerEvent =
  inn_Data :: InnerEventData

text \<open>
  The outer type of an Events-API event: \<open>slackevents.CallbackEvent\<close>, or any other
  tag (URL verification, rate limiting).
\<close>

datatype EventsAPIType = CallbackEvent | OtherEventsAPIType string

record EventsAPIEvent =
  eae_Type :: EventsAPIType
  eae_InnerEvent :: EventsAPIInnerEvent

record SlashCommand =
  cmd_Command :: string
  cmd_Text :: string
  cmd_UserName :: string
  cmd_ChannelID :: string

datatype InteractionType = InteractionTypeBlockActions | OtherInteractionType string

record BlockAction =
  bla_ActionID :: string
  bla_BlockID :: string
  bla_SelectedOptions :: "OptionBlockObject list"

record ActionCallbacks =
  BlockActions :: "BlockAction list"

record InteractionCallback =
  int_Type :: InteractionType
  int_ActionID :: string
  int_ActionCallback :: ActionCallbacks

datatype EventType =
    EventTypeEventsAPI
  | EventTypeSlashCommand
  | EventTypeInteractive
  | OtherEventType string

text \<open>
  The dynamic type of \<open>event.Data\<close>, as far as the type assertions of the router tell
  values apart.
\<close>

datatype EventData =
    EventsAPIData EventsAPIEvent
  | SlashCommandData SlashCommand
  | InteractionData InteractionCallback
  | OtherData

record Request =
  req_EnvelopeID :: string

record Event =
  evt_Type :: EventType
  evt_Data :: EventData
  evt_Request :: "Request option"

subsection \<open>The outside world\<close>

text \<open>
  One constructor per \<open>log\<close> call of the program. The text that \<open>%+v\<close> and \<open>%s\<close>
  produce is not modelled; an entry keeps the value that is printed. The two cast-failure
  lines for slash commands and interactions print the zero value of the failed
  assertion, so they carry nothing.
\<close>

datatype LogEntry =
    LogShutdown
  | LogCastEventsAPI Event
  | LogCastSlashCommand
  | LogCastInteraction
  | LogFatal error
  | LogActionCalled string
  | LogResponseType InteractionType
  | LogAction BlockAction
  | LogSelectedOption "OptionBlockObject list"

record World =
  lookups :: "string list"
  posts :: "(string \<times> Attachment) list"
  acks :: "(Request \<times> Attachment option) list"
  logs :: "LogEntry list"

text \<open>
  The answers of the outside: the result of \<open>client.GetUserInfo\<close>, the error (or
  \<open>nil\<close>) of \<open>client.PostMessage\<close>, and \<open>time.Now()\<close> in the layout
  \<open>2006-01-02 15:04:05\<close>. Each is given the world as it is when the call is made.
\<close>

record Env =
  GetUserInfo :: "World \<Rightarrow> string \<Rightarrow> error + User"
  PostMessage :: "World \<Rightarrow> string \<Rightarrow> Attachment \<Rightarrow> error option"
  NowFormatted :: "World \<Rightarrow> string"

definition logPrint :: "LogEntry \<Rightarrow> World \<Rightarrow> World" where
  "logPrint l w = w\<lparr>logs := logs w @ [l]\<rparr>"

definition Ack :: "Request \<Rightarrow> Attachment option \<Rightarrow> World \<Rightarrow> World" where
  "Ack r payload w = w\<lparr>acks := acks w @ [(r, payload)]\<rparr>"

subsection \<open>The two functions of package strings\<close>

text \<open>
  \<open>strings.Contains s substr\<close>: \<open>substr\<close> occurs in \<open>s\<close> as a run of consecutive
  bytes.
\<close>

fun HasPrefix :: "string \<Rightarrow> string \<Rightarrow> bool" where
  "HasPrefix s [] = True"
| "HasPrefix [] (c # cs) = False"
| "HasPrefix (d # ds) (c # cs) = (d = c \<and> HasPrefix ds cs)"

fun Contains :: "string \<Rightarrow> string \<Rightarrow> bool" where
  "Contains [] substr = HasPrefix [] substr"
| "Contains (d # ds) substr = (HasPrefix (d # ds) substr \<or> Contains ds substr)"

text \<open>
  \<open>strings.ToLower\<close> on the bytes of the ASCII range: the letters \<open>A\<close> to \<open>Z\<close> (65 to
  90) move up by 32, every other byte stays. On text outside ASCII Go maps each rune by
  the Unicode lower-case table; no rune outside ASCII is mapped to one of the letters
  \<open>h\<close>, \<open>e\<close>, \<open>l\<close>, \<open>o\<close> or to an upper-case ASCII letter, and a byte of the ASCII range
  is always a rune of its own, so the only use the program makes of the result, the test
  \<open>Contains text "hello"\<close>, has the same answer.
\<close>

definition toLowerByte :: "char \<Rightarrow> char" where
  "toLowerByte c =
     (if 65 \<le> (of_char c :: nat) \<and> (of_char c :: nat) \<le> 90
      then char_of ((of_char c :: nat) + 32) else c)"

definition ToLower :: "string \<Rightarrow> string" where
  "ToLower s = map toLowerByte s"

subsection \<open>Handlers\<close>

text \<open>
  A handler returning \<open>error\<close> yields \<open>(err, w)\<close>: \<open>err = None\<close> is \<open>nil\<close>, and \<open>w\<close> is
  the world after the call. A handler returning \<open>(interface{}, error)\<close> yields
  \<open>(payload, err, w)\<close>, with \<open>payload = None\<close> for \<open>nil\<close>.
\<close>

definition handleAppMentionEvent ::
  "Env \<Rightarrow> AppMentionEvent \<Rightarrow> World \<Rightarrow> error option \<times> World" where
  "handleAppMentionEvent client event w =
     (let w1 = w\<lparr>lookups := lookups w @ [ame_User event]\<rparr> in
      case GetUserInfo client w (ame_User event) of
        Inl err \<Rightarrow> (Some err, w1)
      | Inr user \<Rightarrow>
          (let text = ToLower (ame_Text event);
               attachment = emptyAttachment;
               attachment = attachment\<lparr>att_Fields :=
                 [\<lparr>fld_Title = ''Date'', fld_Value = NowFormatted client w1\<rparr>,
                  \<lparr>fld_Title = ''Initializer'', fld_Value = usr_Name user\<rparr>]\<rparr>;
               attachment =
                 (if Contains text ''hello''
                  then attachment\<lparr>att_Text := ''Hello '' @ usr_Name user,
                                   att_Pretext := ''Greetings'',
                                   att_Color := ''#4af030''\<rparr>
                  else attachment\<lparr>att_Text := ''How can I help you '' @ usr_Name user,
                                   att_Pretext := ''How can I be of service?'',
                                   att_Color := ''#3d3d3d''\<rparr>);
               w2 = w1\<lparr>posts := posts w1 @ [(ame_Channel event, attachment)]\<rparr>
           in case PostMessage client w1 (ame_Channel event) attachment of
                Some err \<Rightarrow> (Some (Errorf ''failed to post message'' err), w2)
              | None \<Rightarrow> (None, w2)))"

definition handleEventMessage ::
  "Env \<Rightarrow> EventsAPIEvent \<Rightarrow> World \<Rightarrow> error option \<times> World" where
  "handleEventMessage client event w =
     (case eae_Type event of
        CallbackEvent \<Rightarrow>
          (let innerEvent = eae_InnerEvent event in
           case inn_Data innerEvent of
             AppMention ev \<Rightarrow>
               (case handleAppMentionEvent client ev w of
                  (Some err, w1) \<Rightarrow> (Some err, w1)
                | (None, w1) \<Rightarrow> (None, w1))
           | OtherInnerEvent t \<Rightarrow> (None, w))
      | OtherEventsAPIType t \<Rightarrow> (Some (Error ''unsupported event type''), w))"

definition handleHelloCommand ::
  "Env \<Rightarrow> SlashCommand \<Rightarrow> World \<Rightarrow> error option \<times> World" where
  "handleHelloCommand client command w =
     (let attachment = emptyAttachment;
          attachment = attachment\<lparr>att_Fields :=
            [\<lparr>fld_Title = ''Date'', fld_Value = NowFormatted client w\<rparr>,
             \<lparr>fld_Title = ''Initializer'', fld_Value = cmd_UserName command\<rparr>]\<rparr>;
          attachment = attachment\<lparr>att_Text :=
            ''Hello '' @ cmd_UserName command @ ''! You said: '' @ cmd_Text command\<rparr>;
          attachment = attachment\<lparr>att_Color := ''#4af030''\<rparr>;
          w1 = w\<lparr>posts := posts w @ [(cmd_ChannelID command, attachment)]\<rparr>
      in case PostMessage client w (cmd_ChannelID command) attachment of
           Some err \<Rightarrow> (Some (Errorf ''failed to post message'' err), w1)
         | None \<Rightarrow> (None, w1))"

definition handleIsArticleGood ::
  "Env \<Rightarrow> SlashCommand \<Rightarrow> World \<Rightarrow> Attachment option \<times> error option \<times> World" where
  "handleIsArticleGood client command w =
     (let attachment = emptyAttachment;
          checkbox = NewCheckboxGroupsBlockElement ''answer''
            [NewOptionBlockObject ''yes''
               \<lparr>tbo_Type = MarkdownType, tbo_Text = ''Yes''\<rparr>
               \<lparr>tbo_Type = MarkdownType, tbo_Text = ''Did you Enjoy it?''\<rparr>,
             NewOptionBlockObject ''no''
               \<lparr>tbo_Type = MarkdownType, tbo_Text = ''No''\<rparr>
               \<lparr>tbo_Type = MarkdownType, tbo_Text = ''Did you Dislike it?''\<rparr>];
          accessory = NewAccessory checkbox;
          attachment = attachment\<lparr>att_Blocks := \<lparr>BlockSet =
            [NewSectionBlock
               (Some \<lparr>tbo_Type = MarkdownType,
                      tbo_Text = ''Did you think this article was helpful?''\<rparr>)
               []
               (Some accessory)]\<rparr>\<rparr>;
          attachment = attachment\<lparr>att_Text := ''Rate the tutorial''\<rparr>;
          attachment = attachment\<lparr>att_Color := ''#4af030''\<rparr>
      in (Some attachment, None, w))"

definition handleSlashCommand ::
  "Env \<Rightarrow> SlashCommand \<Rightarrow> World \<Rightarrow> Attachment option \<times> error option \<times> World" where
  "handleSlashCommand client command w =
     (if cmd_Command command = ''/hello'' then
        (case handleHelloCommand client command w of (err, w1) \<Rightarrow> (None, err, w1))
      else if cmd_Command command = ''/was-this-article-useful'' then
        handleIsArticleGood client command w
      else (None, None, w))"

text \<open>The \<open>range\<close> loop of \<open>handleInteractiveEvent\<close> over the block actions.\<close>

fun logBlockActions :: "BlockAction list \<Rightarrow> World \<Rightarrow> World" where
  "logBlockActions [] w = w"
| "logBlockActions (action # rest) w =
     logBlockActions rest
       (logPrint (LogSelectedOption (bla_SelectedOptions action))
          (logPrint (LogAction action) w))"

definition handleInteractiveEvent ::
  "Env \<Rightarrow> InteractionCallback \<Rightarrow> World \<Rightarrow> error option \<times> World" where
  "handleInteractiveEvent client interaction w =
     (let w1 = logPrint (LogActionCalled (int_ActionID interaction)) w;
          w2 = logPrint (LogResponseType (int_Type interaction)) w1;
          w3 = (case int_Type interaction of
                  InteractionTypeBlockActions \<Rightarrow>
                    logBlockActions (BlockActions (int_ActionCallback interaction)) w2
                | OtherInteractionType t \<Rightarrow> w2)
      in (None, w3))"

subsection \<open>The router\<close>

text \<open>
  One pass through the \<open>case event := <-socketClient.Events\<close> arm of the loop.
  \<open>Continue w\<close>: the body ended (by \<open>continue\<close> or by reaching the end of the switch)
  and the loop goes on in world \<open>w\<close>. \<open>Fatal w\<close>: \<open>log.Fatal\<close> was called, which writes
  the error to the log and ends the process with \<open>os.Exit(1)\<close>; \<open>w\<close> is the world the
  process leaves behind. \<open>Panic w\<close>: \<open>*event.Request\<close> was evaluated on a \<open>nil\<close>
  request, which ends the process as well.
\<close>

datatype Outcome = Continue World | Fatal World | Panic World

definition logFatal :: "error \<Rightarrow> World \<Rightarrow> Outcome" where
  "logFatal err w = Fatal (logPrint (LogFatal err) w)"

text \<open>
  The router calls three handlers, one per kind of event it routes. The step is written
  over the handlers it calls, so that what the router does with the result of a handler
  can be stated for every result a handler may give; \<open>routerStep\<close>, the step of the
  program, is the step over the three handlers of the program.
\<close>

record Handlers =
  onEventMessage :: "Env \<Rightarrow> EventsAPIEvent \<Rightarrow> World \<Rightarrow> error option \<times> World"
  onSlashCommand ::
    "Env \<Rightarrow> SlashCommand \<Rightarrow> World \<Rightarrow> Attachment option \<times> error option \<times> World"
  onInteractiveEvent :: "Env \<Rightarrow> InteractionCallback \<Rightarrow> World \<Rightarrow> error option \<times> World"

definition routerStepWith :: "Handlers \<Rightarrow> Env \<Rightarrow> Event \<Rightarrow> World \<Rightarrow> Outcome" where
  "routerStepWith handlers client event w =
     (case evt_Type event of
        EventTypeEventsAPI \<Rightarrow>
          (case evt_Data event of
             EventsAPIData eventsAPIEvent \<Rightarrow>
               (case evt_Request event of
                  None \<Rightarrow> Panic w
                | Some request \<Rightarrow>
                    (let w1 = Ack request None w in
                     case onEventMessage handlers client eventsAPIEvent w1 of
                       (Some err, w2) \<Rightarrow> logFatal err w2
                     | (None, w2) \<Rightarrow> Continue w2))
           | _ \<Rightarrow> Continue (logPrint (LogCastEventsAPI event) w))
      | EventTypeSlashCommand \<Rightarrow>
          (case evt_Data event of
             SlashCommandData command \<Rightarrow>
               (case onSlashCommand handlers client command w of
                  (payload, Some err, w1) \<Rightarrow> logFatal err w1
                | (payload, None, w1) \<Rightarrow>
                    (case evt_Request event of
                       None \<Rightarrow> Panic w1
                     | Some request \<Rightarrow> Continue (Ack request payload w1)))
           | _ \<Rightarrow> Continue (logPrint LogCastSlashCommand w))
      | EventTypeInteractive \<Rightarrow>
          (case evt_Data event of
             InteractionData interaction \<Rightarrow>
               (case onInteractiveEvent handlers client interaction w of
                  (Some err, w1) \<Rightarrow> logFatal err w1
                | (None, w1) \<Rightarrow>
                    (case evt_Request event of
                       None \<Rightarrow> Panic w1
                     | Some request \<Rightarrow> Continue (Ack request None w1)))
           | _ \<Rightarrow> Continue (logPrint LogCastInteraction w))
      | OtherEventType t \<Rightarrow> Continue w)"

text \<open>The handlers the program calls at lines 80, 95 and 111.\<close>

definition programHandlers :: Handlers where
  "programHandlers =
     \<lparr>onEventMessage = handleEventMessage,
      onSlashCommand = handleSlashCommand,
      onInteractiveEvent = handleInteractiveEvent\<rparr>"

definition routerStep :: "Env \<Rightarrow> Event \<Rightarrow> World \<Rightarrow> Outcome" where
  "routerStep client event w = routerStepWith programHandlers client event w"

text \<open>
  The loop of the goroutine. Each turn of \<open>select\<close> either finds the context cancelled
  or receives an event; the list holds what the successive turns find. \<open>Stopped w\<close>: the
  goroutine returned after the cancellation. \<open>Exited w\<close>: the process was ended by
  \<open>log.Fatal\<close>. \<open>Crashed w\<close>: the process was ended by a panic. \<open>Waiting w\<close>:
  everything in the list was handled and the loop is blocked in \<open>select\<close>.
\<close>

datatype Selected = Done | Received Event

datatype LoopResult = Stopped World | Exited World | Crashed World | Waiting World

fun routerLoopWith :: "Handlers \<Rightarrow> Env \<Rightarrow> Selected list \<Rightarrow> World \<Rightarrow> LoopResult" where
  "routerLoopWith handlers client [] w = Waiting w"
| "routerLoopWith handlers client (Done # rest) w = Stopped (logPrint LogShutdown w)"
| "routerLoopWith handlers client (Received event # rest) w =
     (case routerStepWith handlers client event w of
        Continue w1 \<Rightarrow> routerLoopWith handlers client rest w1
      | Fatal w1 \<Rightarrow> Exited w1
      | Panic w1 \<Rightarrow> Crashed w1)"

definition routerLoop :: "Env \<Rightarrow> Selected list \<Rightarrow> World \<Rightarrow> LoopResult" where
  "routerLoop client events w = routerLoopWith programHandlers client events w"

subsection \<open>Concrete clients and inputs for the examples\<close>

definition emptyWorld :: World where
  "emptyWorld = \<lparr>lookups = [], posts = [], acks = [], logs = []\<rparr>"

definition okClient :: Env where
  "okClient =
     \<lparr>GetUserInfo = (\<lambda>w u. Inr \<lparr>usr_Name = ''alice''\<rparr>),
      PostMessage = (\<lambda>w c a. None),
      NowFormatted = (\<lambda>w. ''2024-03-01 12:00:00'')\<rparr>"

definition noUserClient :: Env where
  "noUserClient = okClient\<lparr>GetUserInfo := (\<lambda>w u. Inl (Error ''user_not_found''))\<rparr>"

definition noPostClient :: Env where
  "noPostClient = okClient\<lparr>PostMessage := (\<lambda>w c a. Some (Error ''channel_not_found''))\<rparr>"

definition helloCommand :: SlashCommand where
  "helloCommand =
     \<lparr>cmd_Command = ''/hello'', cmd_Text = ''good morning'',
      cmd_UserName = ''alice'', cmd_ChannelID = ''C42''\<rparr>"

definition request1 :: Request where
  "request1 = \<lparr>req_EnvelopeID = ''env-1''\<rparr>"

definition articleCommand :: SlashCommand where
  "articleCommand = helloCommand\<lparr>cmd_Command := ''/was-this-article-useful''\<rparr>"

definition helpCommand :: SlashCommand where
  "helpCommand = helloCommand\<lparr>cmd_Command := ''/help''\<rparr>"

definition mentionHello :: AppMentionEvent where
  "mentionHello =
     \<lparr>ame_User = ''U7'', ame_Text = ''<@BOT> Oh HeLLo there'', ame_Channel = ''C42''\<rparr>"

definition mentionOther :: AppMentionEvent where
  "mentionOther = mentionHello\<lparr>ame_Text := ''<@BOT> HELP, what time is it?''\<rparr>"

definition callbackOf :: "InnerEventData \<Rightarrow> EventsAPIEvent" where
  "callbackOf d = \<lparr>eae_Type = CallbackEvent, eae_InnerEvent = \<lparr>inn_Data = d\<rparr>\<rparr>"

definition rateLimited :: EventsAPIEvent where
  "rateLimited =
     \<lparr>eae_Type = OtherEventsAPIType ''app_rate_limited'',
      eae_InnerEvent = \<lparr>inn_Data = OtherInnerEvent ''nil''\<rparr>\<rparr>"

definition yesOption :: OptionBlockObject where
  "yesOption =
     \<lparr>opt_Text = \<lparr>tbo_Type = MarkdownType, tbo_Text = ''Yes''\<rparr>, opt_Value = ''yes'',
      opt_Description = Some \<lparr>tbo_Type = MarkdownType, tbo_Text = ''Did you Enjoy it?''\<rparr>\<rparr>"

definition answerAction :: BlockAction where
  "answerAction =
     \<lparr>bla_ActionID = ''answer'', bla_BlockID = ''b1'', bla_SelectedOptions = [yesOption]\<rparr>"

definition answerInteraction :: InteractionCallback where
  "answerInteraction =
     \<lparr>int_Type = InteractionTypeBlockActions, int_ActionID = [],
      int_ActionCallback = \<lparr>BlockActions = [answerAction]\<rparr>\<rparr>"

definition incoming :: "EventType \<Rightarrow> EventData \<Rightarrow> Event" where
  "incoming t d = \<lparr>evt_Type = t, evt_Data = d, evt_Request = Some request1\<rparr>"

text \<open>
  A handler of interactions that fails, and the handlers of the program with this one in
  the place of \<open>handleInteractiveEvent\<close>: the guard of the router on the interactive arm
  is exercised with them, since \<open>handleInteractiveEvent\<close> itself never returns an error.
\<close>

definition rejectInteraction ::
  "Env \<Rightarrow> InteractionCallback \<Rightarrow> World \<Rightarrow> error option \<times> World" where
  "rejectInteraction client interaction w =
     (Some (Error ''interaction rejected''),
      logPrint (LogActionCalled (int_ActionID interaction)) w)"

definition rejectingHandlers :: Handlers where
  "rejectingHandlers = programHandlers\<lparr>onInteractiveEvent := rejectInteraction\<rparr>"

definition connected :: Event where
  "connected =
     \<lparr>evt_Type = OtherEventType ''connected'', evt_Data = OtherData, evt_Request = None\<rparr>"

section \<open>Properties\<close>

subsection \<open>Auxiliary facts\<close>

lemmas fixture_defs = emptyWorld_def okClient_def noUserClient_def noPostClient_def
  helloCommand_def request1_def articleCommand_def helpCommand_def mentionHello_def
  mentionOther_def callbackOf_def rateLimited_def yesOption_def answerAction_def
  answerInteraction_def incoming_def connected_def rejectInteraction_def
  rejectingHandlers_def

text \<open>The step and the loop of the program, unfolded.\<close>

lemma routerStep_program:
  "routerStep client event w =
     (case evt_Type event of
        EventTypeEventsAPI \<Rightarrow>
          (case evt_Data event of
             EventsAPIData eventsAPIEvent \<Rightarrow>
               (case evt_Request event of
                  None \<Rightarrow> Panic w
                | Some request \<Rightarrow>
                    (let w1 = Ack request None w in
                     case handleEventMessage client eventsAPIEvent w1 of
                       (Some err, w2) \<Rightarrow> logFatal err w2
                     | (None, w2) \<Rightarrow> Continue w2))
           | _ \<Rightarrow> Continue (logPrint (LogCastEventsAPI event) w))
      | EventTypeSlashCommand \<Rightarrow>
          (case evt_Data event of
             SlashCommandData command \<Rightarrow>
               (case handleSlashCommand client command w of
                  (payload, Some err, w1) \<Rightarrow> logFatal err w1
                | (payload, None, w1) \<Rightarrow>
                    (case evt_Request event of
                       None \<Rightarrow> Panic w1
                     | Some request \<Rightarrow> Continue (Ack request payload w1)))
           | _ \<Rightarrow> Continue (logPrint LogCastSlashCommand w))
      | EventTypeInteractive \<Rightarrow>
          (case evt_Data event of
             InteractionData interaction \<Rightarrow>
               (case handleInteractiveEvent client interaction w of
                  (Some err, w1) \<Rightarrow> logFatal err w1
                | (None, w1) \<Rightarrow>
                    (case evt_Request event of
                       None \<Rightarrow> Panic w1
                     | Some request \<Rightarrow> Continue (Ack request None w1)))
           | _ \<Rightarrow> Continue (logPrint LogCastInteraction w))
      | OtherEventType t \<Rightarrow> Continue w)"
  unfolding routerStep_def routerStepWith_def programHandlers_def Handlers.select_convs
  by (rule refl)

lemma routerLoop_simps [simp]:
  "routerLoop client [] w = Waiting w"
  "routerLoop client (Done # rest) w = Stopped (logPrint LogShutdown w)"
  "routerLoop client (Received event # rest) w =
     (case routerStep client event w of
        Continue w1 \<Rightarrow> routerLoop client rest w1
      | Fatal w1 \<Rightarrow> Exited w1
      | Panic w1 \<Rightarrow> Crashed w1)"
  by (simp_all add: routerLoop_def routerStep_def split: Outcome.splits)

text \<open>\<open>Contains\<close> is the occurrence of a run of consecutive bytes.\<close>

lemma HasPrefix_iff: "HasPrefix s sub \<longleftrightarrow> (\<exists>q. s = sub @ q)"
  by (induction s sub rule: HasPrefix.induct) auto

lemma Contains_iff: "Contains s sub \<longleftrightarrow> (\<exists>p q. s = p @ sub @ q)"
proof (induction s)
  case Nil
  show ?case by (cases sub) simp_all
next
  case (Cons d ds)
  show ?case
  proof
    assume "Contains (d # ds) sub"
    then consider "HasPrefix (d # ds) sub" | "Contains ds sub" by auto
    then show "\<exists>p q. d # ds = p @ sub @ q"
    proof cases
      case 1
      then obtain q where "d # ds = sub @ q" by (auto simp: HasPrefix_iff)
      then have "d # ds = [] @ sub @ q" by simp
      then show ?thesis by blast
    next
      case 2
      then obtain p q where "ds = p @ sub @ q" using Cons.IH by blast
      then have "d # ds = (d # p) @ sub @ q" by simp
      then show ?thesis by blast
    qed
  next
    assume "\<exists>p q. d # ds = p @ sub @ q"
    then obtain p q where pq: "d # ds = p @ sub @ q" by blast
    show "Contains (d # ds) sub"
    proof (cases p)
      case Nil
      with pq have "HasPrefix (d # ds) sub" by (auto simp: HasPrefix_iff)
      then show ?thesis by simp
    next
      case (Cons a p')
      with pq have "ds = p' @ sub @ q" by simp
      then have "Contains ds sub" using Cons.IH by blast
      then show ?thesis by simp
    qed
  qed
qed

text \<open>
  Lowering is idempotent, and the lowered text contains a word exactly when the text
  contains a run of bytes that lowers to that word.
\<close>

lemma toLowerByte_idem: "toLowerByte (toLowerByte c) = toLowerByte c"
  by (cases c) (auto simp: toLowerByte_def)

lemma ToLower_idem: "ToLower (ToLower s) = ToLower s"
  by (simp add: ToLower_def toLowerByte_idem)

lemma Contains_ToLower_iff:
  "Contains (ToLower s) sub \<longleftrightarrow> (\<exists>p u q. s = p @ u @ q \<and> ToLower u = sub)"
proof
  assume "Contains (ToLower s) sub"
  then obtain p' q' where "map toLowerByte s = p' @ sub @ q'"
    by (auto simp: Contains_iff ToLower_def)
  then obtain p r where s: "s = p @ r" and "map toLowerByte r = sub @ q'"
    by (metis map_eq_append_conv)
  then obtain u q where "r = u @ q" and "map toLowerByte u = sub"
    by (metis map_eq_append_conv)
  with s show "\<exists>p u q. s = p @ u @ q \<and> ToLower u = sub"
    by (auto simp: ToLower_def)
next
  assume "\<exists>p u q. s = p @ u @ q \<and> ToLower u = sub"
  then obtain p u q where "s = p @ u @ q" and "ToLower u = sub" by blast
  then have "ToLower s = ToLower p @ sub @ ToLower q"
    by (auto simp: ToLower_def)
  then show "Contains (ToLower s) sub"
    unfolding Contains_iff by blast
qed


text \<open>
  The runs of bytes that lower to \<open>hello\<close> are the thirty-two spellings of the word in
  upper and lower case.
\<close>

lemma toLowerByte_eq_lower:
  assumes "97 \<le> (of_char d :: nat)" and "(of_char d :: nat) \<le> 122"
  shows "toLowerByte c = d \<longleftrightarrow> c = d \<or> (of_char c :: nat) + 32 = of_char d"
proof (cases "65 \<le> (of_char c :: nat) \<and> (of_char c :: nat) \<le> 90")
  case True
  then have 1: "toLowerByte c = char_of ((of_char c :: nat) + 32)"
    by (simp add: toLowerByte_def)
  have 2: "take_bit 8 ((of_char c :: nat) + 32) = of_char c + 32"
    using True by (simp add: take_bit_eq_mod)
  have 3: "c \<noteq> d" using True assms by auto
  show ?thesis unfolding 1 char_of_eq_iff 2 using 3 by simp
next
  case False
  then have "toLowerByte c = c" by (auto simp add: toLowerByte_def)
  moreover have "(of_char c :: nat) + 32 \<noteq> of_char d" using False assms by auto
  ultimately show ?thesis by simp
qed

lemma of_char_nat_eq_iff: "(of_char c :: nat) = of_char d \<longleftrightarrow> c = d"
  by (metis char_of_char)

lemma toLowerByte_h: "toLowerByte a = CHR ''h'' \<longleftrightarrow> a = CHR ''h'' \<or> a = CHR ''H''"
proof -
  have "(of_char a :: nat) + 32 = of_char CHR ''h'' \<longleftrightarrow> (of_char a :: nat) = of_char CHR ''H''"
    by simp
  then show ?thesis
    unfolding of_char_nat_eq_iff by (simp add: toLowerByte_eq_lower)
qed


lemma toLowerByte_e: "toLowerByte a = CHR ''e'' \<longleftrightarrow> a = CHR ''e'' \<or> a = CHR ''E''"
proof -
  have "(of_char a :: nat) + 32 = of_char CHR ''e'' \<longleftrightarrow> (of_char a :: nat) = of_char CHR ''E''"
    by simp
  then show ?thesis
    unfolding of_char_nat_eq_iff by (simp add: toLowerByte_eq_lower)
qed

lemma toLowerByte_l: "toLowerByte a = CHR ''l'' \<longleftrightarrow> a = CHR ''l'' \<or> a = CHR ''L''"
proof -
  have "(of_char a :: nat) + 32 = of_char CHR ''l'' \<longleftrightarrow> (of_char a :: nat) = of_char CHR ''L''"
    by simp
  then show ?thesis
    unfolding of_char_nat_eq_iff by (simp add: toLowerByte_eq_lower)
qed

lemma toLowerByte_o: "toLowerByte a = CHR ''o'' \<longleftrightarrow> a = CHR ''o'' \<or> a = CHR ''O''"
proof -
  have "(of_char a :: nat) + 32 = of_char CHR ''o'' \<longleftrightarrow> (of_char a :: nat) = of_char CHR ''O''"
    by simp
  then show ?thesis
    unfolding of_char_nat_eq_iff by (simp add: toLowerByte_eq_lower)
qed

lemma ToLower_hello_iff:
  "ToLower u = ''hello'' \<longleftrightarrow>
     (\<exists>a b c d e. u = [a, b, c, d, e]
        \<and> (a = CHR ''h'' \<or> a = CHR ''H'') \<and> (b = CHR ''e'' \<or> b = CHR ''E'')
        \<and> (c = CHR ''l'' \<or> c = CHR ''L'') \<and> (d = CHR ''l'' \<or> d = CHR ''L'')
        \<and> (e = CHR ''o'' \<or> e = CHR ''O''))"
proof
  assume "ToLower u = ''hello''"
  then have m: "map toLowerByte u = ''hello''" by (simp add: ToLower_def)
  then obtain a b c d e where u: "u = [a, b, c, d, e]"
    and "toLowerByte a = CHR ''h''" "toLowerByte b = CHR ''e''" "toLowerByte c = CHR ''l''"
        "toLowerByte d = CHR ''l''" "toLowerByte e = CHR ''o''"
    unfolding map_eq_Cons_conv by blast
  then show "\<exists>a b c d e. u = [a, b, c, d, e]
        \<and> (a = CHR ''h'' \<or> a = CHR ''H'') \<and> (b = CHR ''e'' \<or> b = CHR ''E'')
        \<and> (c = CHR ''l'' \<or> c = CHR ''L'') \<and> (d = CHR ''l'' \<or> d = CHR ''L'')
        \<and> (e = CHR ''o'' \<or> e = CHR ''O'')"
    unfolding toLowerByte_h toLowerByte_e toLowerByte_l toLowerByte_o by blast
next
  assume "\<exists>a b c d e. u = [a, b, c, d, e]
        \<and> (a = CHR ''h'' \<or> a = CHR ''H'') \<and> (b = CHR ''e'' \<or> b = CHR ''E'')
        \<and> (c = CHR ''l'' \<or> c = CHR ''L'') \<and> (d = CHR ''l'' \<or> d = CHR ''L'')
        \<and> (e = CHR ''o'' \<or> e = CHR ''O'')"
  then obtain a b c d e where u: "u = [a, b, c, d, e]"
    and "toLowerByte a = CHR ''h''" "toLowerByte b = CHR ''e''" "toLowerByte c = CHR ''l''"
        "toLowerByte d = CHR ''l''" "toLowerByte e = CHR ''o''"
    unfolding toLowerByte_h toLowerByte_e toLowerByte_l toLowerByte_o by blast
  then show "ToLower u = ''hello''" by (simp add: ToLower_def)
qed

subsection \<open>Slash commands\<close>

text \<open>
  Claim C1. For a slash command whose \<open>Command\<close> is \<open>/hello\<close>, with argument text
  \<open>T\<close> and user name \<open>U\<close>, \<open>handleSlashCommand\<close> makes exactly one call of
  \<open>PostMessage\<close>, to the channel of the command, with an attachment whose text is
  \<open>Hello U! You said: T\<close>; nothing else in the world changes, and the payload handed
  back to the router is \<open>nil\<close>. The error handed back is \<open>nil\<close> when the post
  succeeds and the wrapped error of the post otherwise.
\<close>

theorem hello_command_reply:
  assumes "cmd_Command command = ''/hello''"
  shows "\<exists>attachment.
           handleSlashCommand client command w =
             (None,
              map_option (Errorf ''failed to post message'')
                (PostMessage client w (cmd_ChannelID command) attachment),
              w\<lparr>posts := posts w @ [(cmd_ChannelID command, attachment)]\<rparr>)
         \<and> att_Text attachment =
             ''Hello '' @ cmd_UserName command @ ''! You said: '' @ cmd_Text command"
proof -
  let ?a = "emptyAttachment
    \<lparr>att_Fields :=
       [\<lparr>fld_Title = ''Date'', fld_Value = NowFormatted client w\<rparr>,
        \<lparr>fld_Title = ''Initializer'', fld_Value = cmd_UserName command\<rparr>],
     att_Text := ''Hello '' @ cmd_UserName command @ ''! You said: '' @ cmd_Text command,
     att_Color := ''#4af030''\<rparr>"
  have "handleSlashCommand client command w =
          (None,
           map_option (Errorf ''failed to post message'')
             (PostMessage client w (cmd_ChannelID command) ?a),
           w\<lparr>posts := posts w @ [(cmd_ChannelID command, ?a)]\<rparr>)"
    using assms
    by (simp add: handleSlashCommand_def handleHelloCommand_def Let_def
        split: option.splits)
  moreover have "att_Text ?a =
      ''Hello '' @ cmd_UserName command @ ''! You said: '' @ cmd_Text command"
    by simp
  ultimately show ?thesis by blast
qed

theorem hello_command_reply_witness:
  "cmd_Command helloCommand = ''/hello'' \<and>
   (\<exists>attachment.
      handleSlashCommand okClient helloCommand emptyWorld =
        (None, None, emptyWorld\<lparr>posts := [(''C42'', attachment)]\<rparr>)
    \<and> att_Text attachment = ''Hello alice! You said: good morning'')"
  using hello_command_reply [of helloCommand okClient emptyWorld]
  by (simp add: fixture_defs)

text \<open>
  Claim C2. For a slash command whose \<open>Command\<close> is neither \<open>/hello\<close> nor
  \<open>/was-this-article-useful\<close>, \<open>handleSlashCommand\<close> returns a \<open>nil\<close> payload and a
  \<open>nil\<close> error and leaves the world as it was: no lookup, no post, no acknowledgment,
  no log line.
\<close>

theorem unknown_command_ignored:
  assumes "cmd_Command command \<noteq> ''/hello''"
    and "cmd_Command command \<noteq> ''/was-this-article-useful''"
  shows "handleSlashCommand client command w = (None, None, w)"
  using assms by (simp add: handleSlashCommand_def)

theorem unknown_command_ignored_witness:
  "cmd_Command helpCommand \<noteq> ''/hello'' \<and>
   cmd_Command helpCommand \<noteq> ''/was-this-article-useful'' \<and>
   handleSlashCommand noPostClient helpCommand emptyWorld =
     (None, None, emptyWorld)"
  using unknown_command_ignored [of helpCommand noPostClient emptyWorld]
  by (simp add: fixture_defs)

text \<open>
  Claim C7. For a slash command whose \<open>Command\<close> is \<open>/was-this-article-useful\<close>,
  \<open>handleSlashCommand\<close> sends nothing and changes nothing in the world; it returns a
  \<open>nil\<close> error and an attachment with one section block whose accessory is a checkbox
  group of exactly two options, labelled \<open>Yes\<close> and \<open>No\<close> in this order. The router,
  given the request of the event, acknowledges the request with this attachment as
  payload.
\<close>

theorem article_command_payload:
  assumes "cmd_Command command = ''/was-this-article-useful''"
  shows "\<exists>attachment sec checkbox.
           handleSlashCommand client command w = (Some attachment, None, w)
         \<and> BlockSet (att_Blocks attachment) = [Section sec]
         \<and> sec_Accessory sec = Some (CheckboxGroupsAccessory checkbox)
         \<and> map (\<lambda>opt. tbo_Text (opt_Text opt)) (cbg_Options checkbox) = [''Yes'', ''No'']
         \<and> routerStep client
              \<lparr>evt_Type = EventTypeSlashCommand, evt_Data = SlashCommandData command,
               evt_Request = Some request\<rparr> w =
            Continue (Ack request (Some attachment) w)"
proof -
  obtain attachment where a: "handleIsArticleGood client command w = (Some attachment, None, w)"
    by (simp add: handleIsArticleGood_def)
  then have h: "handleSlashCommand client command w = (Some attachment, None, w)"
    using assms by (simp add: handleSlashCommand_def)
  from a obtain sec where s: "BlockSet (att_Blocks attachment) = [Section sec]"
    and acc: "sec_Accessory sec = Some (CheckboxGroupsAccessory
        (NewCheckboxGroupsBlockElement ''answer''
            [NewOptionBlockObject ''yes''
               \<lparr>tbo_Type = MarkdownType, tbo_Text = ''Yes''\<rparr>
               \<lparr>tbo_Type = MarkdownType, tbo_Text = ''Did you Enjoy it?''\<rparr>,
             NewOptionBlockObject ''no''
               \<lparr>tbo_Type = MarkdownType, tbo_Text = ''No''\<rparr>
               \<lparr>tbo_Type = MarkdownType, tbo_Text = ''Did you Dislike it?''\<rparr>]))"
    by (auto simp: handleIsArticleGood_def Let_def NewSectionBlock_def NewAccessory_def)
  have r: "routerStep client
              \<lparr>evt_Type = EventTypeSlashCommand, evt_Data = SlashCommandData command,
               evt_Request = Some request\<rparr> w =
            Continue (Ack request (Some attachment) w)"
    using h by (simp add: routerStep_program)
  show ?thesis
    using h s acc r
    by (intro exI conjI)
       (assumption, assumption, assumption,
        simp add: NewCheckboxGroupsBlockElement_def NewOptionBlockObject_def, assumption)
qed


theorem article_command_payload_witness:
  "cmd_Command articleCommand = ''/was-this-article-useful'' \<and>
   (\<exists>attachment sec checkbox.
      handleSlashCommand noPostClient articleCommand emptyWorld =
        (Some attachment, None, emptyWorld)
    \<and> BlockSet (att_Blocks attachment) = [Section sec]
    \<and> sec_Accessory sec = Some (CheckboxGroupsAccessory checkbox)
    \<and> map (\<lambda>opt. tbo_Text (opt_Text opt)) (cbg_Options checkbox) = [''Yes'', ''No'']
    \<and> routerStep noPostClient
         (incoming EventTypeSlashCommand (SlashCommandData articleCommand)) emptyWorld =
       Continue (emptyWorld\<lparr>acks := [(request1, Some attachment)]\<rparr>))"
  using article_command_payload [of articleCommand noPostClient emptyWorld request1]
  by (simp add: fixture_defs Ack_def)

subsection \<open>Mentions\<close>

text \<open>
  Claim C8. For an app-mention event, when \<open>GetUserInfo\<close> fails,
  \<open>handleAppMentionEvent\<close> returns that very error and the only trace in the world is the
  lookup: no message is posted. When the lookup succeeds, exactly one message is posted,
  to the channel of the event, and its attachment has two fields: \<open>Date\<close>, holding the
  formatted time, and \<open>Initializer\<close>, holding the name of the user.
\<close>

theorem mention_lookup_then_reply:
  "(GetUserInfo client w (ame_User event) = Inl err \<longrightarrow>
      handleAppMentionEvent client event w =
        (Some err, w\<lparr>lookups := lookups w @ [ame_User event]\<rparr>))
   \<and> (GetUserInfo client w (ame_User event) = Inr user \<longrightarrow>
      (\<exists>attachment.
         snd (handleAppMentionEvent client event w) =
           w\<lparr>lookups := lookups w @ [ame_User event],
             posts := posts w @ [(ame_Channel event, attachment)]\<rparr>
       \<and> att_Fields attachment =
           [\<lparr>fld_Title = ''Date'',
             fld_Value = NowFormatted client (w\<lparr>lookups := lookups w @ [ame_User event]\<rparr>)\<rparr>,
            \<lparr>fld_Title = ''Initializer'', fld_Value = usr_Name user\<rparr>]))"
  by (auto simp: handleAppMentionEvent_def Let_def emptyAttachment_def split: option.splits)

theorem mention_lookup_then_reply_witness:
  "GetUserInfo noUserClient emptyWorld (ame_User mentionHello) = Inl (Error ''user_not_found'')
   \<and> handleAppMentionEvent noUserClient mentionHello emptyWorld =
        (Some (Error ''user_not_found''), emptyWorld\<lparr>lookups := [''U7'']\<rparr>)
   \<and> GetUserInfo okClient emptyWorld (ame_User mentionHello) = Inr \<lparr>usr_Name = ''alice''\<rparr>
   \<and> (\<exists>attachment.
         snd (handleAppMentionEvent okClient mentionHello emptyWorld) =
           emptyWorld\<lparr>lookups := [''U7''], posts := [(''C42'', attachment)]\<rparr>
       \<and> att_Fields attachment =
           [\<lparr>fld_Title = ''Date'', fld_Value = ''2024-03-01 12:00:00''\<rparr>,
            \<lparr>fld_Title = ''Initializer'', fld_Value = ''alice''\<rparr>])"
  using mention_lookup_then_reply
          [of noUserClient emptyWorld mentionHello "Error ''user_not_found''"]
        mention_lookup_then_reply
          [of okClient emptyWorld mentionHello _ "\<lparr>usr_Name = ''alice''\<rparr>"]
  by (simp add: fixture_defs)


text \<open>
  The two branches of the handler, in terms of the test the code makes, and the fact that
  the text of the event is only read through \<open>ToLower\<close>.
\<close>

lemma mention_reply_greeting:
  assumes "GetUserInfo client w (ame_User event) = Inr user"
    and "Contains (ToLower (ame_Text event)) ''hello''"
  shows "\<exists>attachment.
           posts (snd (handleAppMentionEvent client event w)) =
             posts w @ [(ame_Channel event, attachment)]
         \<and> att_Pretext attachment = ''Greetings''
         \<and> att_Text attachment = ''Hello '' @ usr_Name user
         \<and> att_Color attachment = ''#4af030''"
  using assms
  by (auto simp: handleAppMentionEvent_def Let_def split: option.splits)

lemma mention_reply_service:
  assumes "GetUserInfo client w (ame_User event) = Inr user"
    and "\<not> Contains (ToLower (ame_Text event)) ''hello''"
  shows "\<exists>attachment.
           posts (snd (handleAppMentionEvent client event w)) =
             posts w @ [(ame_Channel event, attachment)]
         \<and> att_Pretext attachment = ''How can I be of service?''
         \<and> att_Text attachment = ''How can I help you '' @ usr_Name user
         \<and> att_Color attachment = ''#3d3d3d''"
  using assms
  by (auto simp: handleAppMentionEvent_def Let_def split: option.splits)

lemma mention_lowered_text:
  "handleAppMentionEvent client (event\<lparr>ame_Text := ToLower (ame_Text event)\<rparr>) w =
   handleAppMentionEvent client event w"
  by (simp add: handleAppMentionEvent_def Let_def ToLower_idem split: sum.splits option.splits)

text \<open>
  Claim C5. For an app-mention event whose text contains \<open>hello\<close> in any letter case
  (the text is \<open>p @ u @ s\<close> for a run \<open>u\<close> that lowers to \<open>hello\<close>), and whose user is
  found, the single message posted carries an attachment with pretext \<open>Greetings\<close> and
  colour \<open>#4af030\<close>. Lowering the case of the text beforehand does not change the
  outcome of the handler, hence not the branch taken.
\<close>

theorem mention_hello_greeting:
  assumes "ame_Text event = p @ u @ s"
    and "ToLower u = ''hello''"
    and "GetUserInfo client w (ame_User event) = Inr user"
  shows "(\<exists>attachment.
            posts (snd (handleAppMentionEvent client event w)) =
              posts w @ [(ame_Channel event, attachment)]
          \<and> att_Pretext attachment = ''Greetings''
          \<and> att_Color attachment = ''#4af030'')
         \<and> handleAppMentionEvent client (event\<lparr>ame_Text := ToLower (ame_Text event)\<rparr>) w =
             handleAppMentionEvent client event w"
proof -
  have "Contains (ToLower (ame_Text event)) ''hello''"
    unfolding Contains_ToLower_iff using assms(1,2) by blast
  from mention_reply_greeting [OF assms(3) this] mention_lowered_text
  show ?thesis by blast
qed

theorem mention_hello_greeting_witness:
  "ame_Text mentionHello = ''<@BOT> Oh '' @ ''HeLLo'' @ '' there''
   \<and> ToLower ''HeLLo'' = ''hello''
   \<and> GetUserInfo okClient emptyWorld (ame_User mentionHello) = Inr \<lparr>usr_Name = ''alice''\<rparr>
   \<and> (\<exists>attachment.
         posts (snd (handleAppMentionEvent okClient mentionHello emptyWorld)) =
           [(''C42'', attachment)]
       \<and> att_Pretext attachment = ''Greetings''
       \<and> att_Color attachment = ''#4af030'')
   \<and> handleAppMentionEvent okClient
         (mentionHello\<lparr>ame_Text := ToLower (ame_Text mentionHello)\<rparr>) emptyWorld =
       handleAppMentionEvent okClient mentionHello emptyWorld"
proof -
  have 1: "ame_Text mentionHello = ''<@BOT> Oh '' @ ''HeLLo'' @ '' there''"
    by (simp add: mentionHello_def)
  have 2: "ToLower ''HeLLo'' = ''hello''"
    by (simp add: ToLower_def toLowerByte_def char_of_eq_iff)
  have 3: "GetUserInfo okClient emptyWorld (ame_User mentionHello) = Inr \<lparr>usr_Name = ''alice''\<rparr>"
    by (simp add: okClient_def)
  from mention_hello_greeting [OF 1 2 3] 1 2 3 show ?thesis
    by (simp add: emptyWorld_def mentionHello_def)
qed

text \<open>
  Claim C6. For an app-mention event whose text contains no run of bytes that lowers to
  \<open>hello\<close>, and whose user is found, the single message posted carries an attachment
  with pretext \<open>How can I be of service?\<close>, text \<open>How can I help you\<close> followed by the
  name of the user, and colour \<open>#3d3d3d\<close>.
\<close>

theorem mention_other_service:
  assumes "\<not> (\<exists>p u s. ame_Text event = p @ u @ s \<and> ToLower u = ''hello'')"
    and "GetUserInfo client w (ame_User event) = Inr user"
  shows "\<exists>attachment.
           posts (snd (handleAppMentionEvent client event w)) =
             posts w @ [(ame_Channel event, attachment)]
         \<and> att_Pretext attachment = ''How can I be of service?''
         \<and> att_Text attachment = ''How can I help you '' @ usr_Name user
         \<and> att_Color attachment = ''#3d3d3d''"
proof -
  have "\<not> Contains (ToLower (ame_Text event)) ''hello''"
    unfolding Contains_ToLower_iff using assms(1) .
  from mention_reply_service [OF assms(2) this] show ?thesis .
qed

theorem mention_other_service_witness:
  "\<not> (\<exists>p u s. ame_Text mentionOther = p @ u @ s \<and> ToLower u = ''hello'')
   \<and> GetUserInfo okClient emptyWorld (ame_User mentionOther) = Inr \<lparr>usr_Name = ''alice''\<rparr>
   \<and> (\<exists>attachment.
         posts (snd (handleAppMentionEvent okClient mentionOther emptyWorld)) =
           [(''C42'', attachment)]
       \<and> att_Pretext attachment = ''How can I be of service?''
       \<and> att_Text attachment = ''How can I help you alice''
       \<and> att_Color attachment = ''#3d3d3d'')"
proof -
  have "\<not> Contains (ToLower (ame_Text mentionOther)) ''hello''"
    by (simp add: mentionOther_def mentionHello_def ToLower_def toLowerByte_def char_of_eq_iff)
  then have 1: "\<not> (\<exists>p u s. ame_Text mentionOther = p @ u @ s \<and> ToLower u = ''hello'')"
    unfolding Contains_ToLower_iff .
  have 2: "GetUserInfo okClient emptyWorld (ame_User mentionOther) = Inr \<lparr>usr_Name = ''alice''\<rparr>"
    by (simp add: okClient_def)
  from mention_other_service [OF 1 2] 1 2 show ?thesis
    by (simp add: emptyWorld_def mentionOther_def mentionHello_def)
qed


subsection \<open>Interactive callbacks\<close>

text \<open>The loop over the block actions only appends to the log.\<close>

lemma logBlockActions_logs:
  "logBlockActions actions w =
     w\<lparr>logs := logs w @
        concat (map (\<lambda>action. [LogAction action,
                                LogSelectedOption (bla_SelectedOptions action)]) actions)\<rparr>"
  by (induction actions arbitrary: w) (simp_all add: logPrint_def)

text \<open>
  Claim C9. For every interaction, \<open>handleInteractiveEvent\<close> returns a \<open>nil\<close> error and
  the world it leaves differs from the one it found in the log only: the action id, the
  type of the interaction and, when the type is block actions, each action followed by its
  selected options. No lookup, no post, no acknowledgment.
\<close>

theorem interactive_event_only_logs:
  "handleInteractiveEvent client interaction w =
     (None,
      w\<lparr>logs := logs w @
         [LogActionCalled (int_ActionID interaction), LogResponseType (int_Type interaction)] @
         (if int_Type interaction = InteractionTypeBlockActions
          then concat (map (\<lambda>action. [LogAction action,
                                          LogSelectedOption (bla_SelectedOptions action)])
                         (BlockActions (int_ActionCallback interaction)))
          else [])\<rparr>)"
  by (cases "int_Type interaction")
     (simp_all add: handleInteractiveEvent_def logPrint_def logBlockActions_logs)

theorem interactive_event_only_logs_witness:
  "handleInteractiveEvent noPostClient answerInteraction emptyWorld =
     (None,
      emptyWorld\<lparr>logs :=
        [LogActionCalled [], LogResponseType InteractionTypeBlockActions,
         LogAction answerAction, LogSelectedOption [yesOption]]\<rparr>)"
  using interactive_event_only_logs [of noPostClient answerInteraction emptyWorld]
  by (simp add: answerInteraction_def emptyWorld_def answerAction_def)

subsection \<open>Events-API events\<close>

text \<open>
  Claim C10. For an Events-API event of outer type \<open>CallbackEvent\<close> whose inner event is
  not an app mention, \<open>handleEventMessage\<close> returns \<open>nil\<close> and leaves the world as it
  was: no reply, no error, no log line.
\<close>

theorem other_inner_event_ignored:
  assumes "eae_Type event = CallbackEvent"
    and "inn_Data (eae_InnerEvent event) = OtherInnerEvent t"
  shows "handleEventMessage client event w = (None, w)"
  using assms by (simp add: handleEventMessage_def)

theorem other_inner_event_ignored_witness:
  "eae_Type (callbackOf (OtherInnerEvent ''*slackevents.MessageEvent'')) = CallbackEvent
   \<and> inn_Data (eae_InnerEvent (callbackOf (OtherInnerEvent ''*slackevents.MessageEvent''))) =
       OtherInnerEvent ''*slackevents.MessageEvent''
   \<and> handleEventMessage noPostClient
         (callbackOf (OtherInnerEvent ''*slackevents.MessageEvent'')) emptyWorld =
       (None, emptyWorld)"
  using other_inner_event_ignored
          [of "callbackOf (OtherInnerEvent ''*slackevents.MessageEvent'')"
              "''*slackevents.MessageEvent''" noPostClient emptyWorld]
  by (simp add: callbackOf_def)

subsection \<open>The router\<close>

text \<open>\<open>handleInteractiveEvent\<close> never returns an error.\<close>

lemma handleInteractiveEvent_no_error:
  "fst (handleInteractiveEvent client interaction w) = None"
  by (simp add: handleInteractiveEvent_def Let_def)

text \<open>
  Claim C4. For every event the router handles (an Events-API event, a slash command, an
  interactive callback, each with data of the expected type), if the handler the router
  invokes returns an error, the router calls \<open>log.Fatal\<close> with that error: the step
  ends in \<open>Fatal\<close>, with the error written to the log after whatever the handler did,
  and the loop ends in \<open>Exited\<close>, whatever events were still to come. This is stated for
  every handler the router may be given on each of the three arms, hence for the
  handlers of the program; the guard on the interactive arm is thereby part of the
  statement although \<open>handleInteractiveEvent\<close> never returns an error.
\<close>

theorem handler_error_is_fatal:
  "(evt_Type event = EventTypeEventsAPI \<and> evt_Data event = EventsAPIData eventsAPIEvent
      \<and> evt_Request event = Some request
      \<and> onEventMessage handlers client eventsAPIEvent (Ack request None w) = (Some err, w1)
    \<longrightarrow> routerStepWith handlers client event w = Fatal (logPrint (LogFatal err) w1)
      \<and> routerLoopWith handlers client (Received event # rest) w =
          Exited (logPrint (LogFatal err) w1))
   \<and> (evt_Type event = EventTypeSlashCommand \<and> evt_Data event = SlashCommandData command
      \<and> onSlashCommand handlers client command w = (payload, Some err, w1)
    \<longrightarrow> routerStepWith handlers client event w = Fatal (logPrint (LogFatal err) w1)
      \<and> routerLoopWith handlers client (Received event # rest) w =
          Exited (logPrint (LogFatal err) w1))
   \<and> (evt_Type event = EventTypeInteractive \<and> evt_Data event = InteractionData interaction
      \<and> onInteractiveEvent handlers client interaction w = (Some err, w1)
    \<longrightarrow> routerStepWith handlers client event w = Fatal (logPrint (LogFatal err) w1)
      \<and> routerLoopWith handlers client (Received event # rest) w =
          Exited (logPrint (LogFatal err) w1))"
  by (simp add: routerStepWith_def logFatal_def)

theorem handler_error_is_fatal_witness:
  "handleEventMessage noUserClient (callbackOf (AppMention mentionHello))
      (Ack request1 None emptyWorld) =
     (Some (Error ''user_not_found''),
      emptyWorld\<lparr>lookups := [''U7''], acks := [(request1, None)]\<rparr>)
   \<and> routerLoop noUserClient
        [Received (incoming EventTypeEventsAPI
                     (EventsAPIData (callbackOf (AppMention mentionHello)))),
         Received (incoming EventTypeSlashCommand (SlashCommandData helpCommand))]
        emptyWorld =
       Exited (emptyWorld\<lparr>lookups := [''U7''], acks := [(request1, None)],
                          logs := [LogFatal (Error ''user_not_found'')]\<rparr>)
   \<and> (\<exists>attachment.
         handleSlashCommand noPostClient helloCommand emptyWorld =
           (None, Some (Errorf ''failed to post message'' (Error ''channel_not_found'')),
            emptyWorld\<lparr>posts := [(''C42'', attachment)]\<rparr>)
       \<and> routerLoop noPostClient
            [Received (incoming EventTypeSlashCommand (SlashCommandData helloCommand)),
             Received (incoming EventTypeSlashCommand (SlashCommandData helpCommand))]
            emptyWorld =
           Exited (emptyWorld\<lparr>posts := [(''C42'', attachment)],
              logs := [LogFatal (Errorf ''failed to post message''
                                   (Error ''channel_not_found''))]\<rparr>))
   \<and> onInteractiveEvent rejectingHandlers okClient answerInteraction emptyWorld =
       (Some (Error ''interaction rejected''), emptyWorld\<lparr>logs := [LogActionCalled []]\<rparr>)
   \<and> routerLoopWith rejectingHandlers okClient
        [Received (incoming EventTypeInteractive (InteractionData answerInteraction)),
         Received (incoming EventTypeSlashCommand (SlashCommandData helpCommand))]
        emptyWorld =
       Exited (emptyWorld\<lparr>logs := [LogActionCalled [],
                                   LogFatal (Error ''interaction rejected'')]\<rparr>)"
proof -
  let ?mention = "callbackOf (AppMention mentionHello)"
  let ?next = "Received (incoming EventTypeSlashCommand (SlashCommandData helpCommand))"
  have m: "handleEventMessage noUserClient ?mention (Ack request1 None emptyWorld) =
     (Some (Error ''user_not_found''),
      emptyWorld\<lparr>lookups := [''U7''], acks := [(request1, None)]\<rparr>)"
    by (simp add: handleEventMessage_def handleAppMentionEvent_def fixture_defs Ack_def)
  obtain attachment where h: "handleSlashCommand noPostClient helloCommand emptyWorld =
           (None, Some (Errorf ''failed to post message'' (Error ''channel_not_found'')),
            emptyWorld\<lparr>posts := [(''C42'', attachment)]\<rparr>)"
    by (simp add: handleSlashCommand_def handleHelloCommand_def fixture_defs)
  have i: "onInteractiveEvent rejectingHandlers okClient answerInteraction emptyWorld =
       (Some (Error ''interaction rejected''), emptyWorld\<lparr>logs := [LogActionCalled []]\<rparr>)"
    by (simp add: rejectingHandlers_def rejectInteraction_def answerInteraction_def
        logPrint_def emptyWorld_def)
  from handler_error_is_fatal
         [where event = "incoming EventTypeEventsAPI (EventsAPIData ?mention)"
            and eventsAPIEvent = ?mention and request = request1
            and handlers = programHandlers and client = noUserClient and w = emptyWorld
            and err = "Error ''user_not_found''"
            and ?w1.0 = "emptyWorld\<lparr>lookups := [''U7''], acks := [(request1, None)]\<rparr>"
            and rest = "[?next]"]
       m
  have 1: "routerLoop noUserClient
             [Received (incoming EventTypeEventsAPI (EventsAPIData ?mention)), ?next]
             emptyWorld =
           Exited (emptyWorld\<lparr>lookups := [''U7''], acks := [(request1, None)],
                              logs := [LogFatal (Error ''user_not_found'')]\<rparr>)"
    by (simp add: routerLoop_def programHandlers_def incoming_def logPrint_def emptyWorld_def)
  from handler_error_is_fatal
         [where event = "incoming EventTypeSlashCommand (SlashCommandData helloCommand)"
            and command = helloCommand and payload = None
            and handlers = programHandlers and client = noPostClient and w = emptyWorld
            and err = "Errorf ''failed to post message'' (Error ''channel_not_found'')"
            and ?w1.0 = "emptyWorld\<lparr>posts := [(''C42'', attachment)]\<rparr>"
            and rest = "[?next]"]
       h
  have 2: "routerLoop noPostClient
            [Received (incoming EventTypeSlashCommand (SlashCommandData helloCommand)), ?next]
            emptyWorld =
           Exited (emptyWorld\<lparr>posts := [(''C42'', attachment)],
              logs := [LogFatal (Errorf ''failed to post message''
                                   (Error ''channel_not_found''))]\<rparr>)"
    by (simp add: routerLoop_def programHandlers_def incoming_def logPrint_def emptyWorld_def)
  from handler_error_is_fatal
         [where event = "incoming EventTypeInteractive (InteractionData answerInteraction)"
            and interaction = answerInteraction
            and handlers = rejectingHandlers and client = okClient and w = emptyWorld
            and err = "Error ''interaction rejected''"
            and ?w1.0 = "emptyWorld\<lparr>logs := [LogActionCalled []]\<rparr>"
            and rest = "[?next]"]
       i
  have 3: "routerLoopWith rejectingHandlers okClient
            [Received (incoming EventTypeInteractive (InteractionData answerInteraction)), ?next]
            emptyWorld =
           Exited (emptyWorld\<lparr>logs := [LogActionCalled [],
                                       LogFatal (Error ''interaction rejected'')]\<rparr>)"
    by (simp add: incoming_def logPrint_def emptyWorld_def)
  from m 1 h 2 i 3 show ?thesis by blast
qed

text \<open>
  Claim C3 says that an event of unknown kind, an event whose data fails the type
  assertion, and in particular an Events-API event whose outer type is not a callback
  event, are all logged and skipped without ending the process. Two concrete runs show
  otherwise. A rate-limiting event (outer type \<open>app_rate_limited\<close>) arriving as a
  well-typed Events-API event is acknowledged, \<open>handleEventMessage\<close> answers
  \<open>unsupported event type\<close>, and the router ends the process; the slash command behind
  it is never handled. An event of a kind the router has no case for (\<open>connected\<close>) is
  skipped, but nothing is logged.
\<close>

theorem unsupported_event_type_exits:
  "routerLoop okClient
     [Received (incoming EventTypeEventsAPI (EventsAPIData rateLimited)),
      Received (incoming EventTypeSlashCommand (SlashCommandData helloCommand))]
     emptyWorld =
   Exited (emptyWorld\<lparr>acks := [(request1, None)],
                      logs := [LogFatal (Error ''unsupported event type'')]\<rparr>)
   \<and> routerStep okClient connected emptyWorld = Continue emptyWorld"
  by (simp add: routerStep_program handleEventMessage_def logFatal_def logPrint_def Ack_def
      fixture_defs)

text \<open>
  Claim C3, amended. An event of one of the three routed kinds whose data fails the type
  assertion makes the router write one log line and go on with the next event. An event
  of any other kind is skipped without a log line, and the router goes on with the next
  event. An Events-API event whose data is well typed but whose outer type is not a
  callback event is acknowledged, then makes \<open>handleEventMessage\<close> return the error
  \<open>unsupported event type\<close>, on which the router ends the process with \<open>log.Fatal\<close>.
\<close>

theorem skipped_events_and_unsupported_type:
  "(evt_Type event = EventTypeEventsAPI \<and> (\<forall>e. evt_Data event \<noteq> EventsAPIData e)
    \<longrightarrow> routerLoop client (Received event # rest) w =
        routerLoop client rest (logPrint (LogCastEventsAPI event) w))
   \<and> (evt_Type event = EventTypeSlashCommand \<and> (\<forall>c. evt_Data event \<noteq> SlashCommandData c)
    \<longrightarrow> routerLoop client (Received event # rest) w =
        routerLoop client rest (logPrint LogCastSlashCommand w))
   \<and> (evt_Type event = EventTypeInteractive \<and> (\<forall>i. evt_Data event \<noteq> InteractionData i)
    \<longrightarrow> routerLoop client (Received event # rest) w =
        routerLoop client rest (logPrint LogCastInteraction w))
   \<and> (evt_Type event = OtherEventType t
    \<longrightarrow> routerLoop client (Received event # rest) w = routerLoop client rest w)
   \<and> (evt_Type event = EventTypeEventsAPI \<and> evt_Data event = EventsAPIData eventsAPIEvent
      \<and> eae_Type eventsAPIEvent = OtherEventsAPIType t' \<and> evt_Request event = Some request
    \<longrightarrow> routerLoop client (Received event # rest) w =
        Exited (logPrint (LogFatal (Error ''unsupported event type''))
                  (Ack request None w)))"
  by (cases "evt_Data event")
     (simp_all add: routerStep_program handleEventMessage_def logFatal_def)

theorem skipped_events_and_unsupported_type_witness:
  "routerLoop okClient
     [Received (incoming EventTypeEventsAPI (SlashCommandData helloCommand)),
      Received (incoming EventTypeSlashCommand OtherData),
      Received (incoming EventTypeInteractive OtherData),
      Received connected,
      Received (incoming EventTypeEventsAPI (EventsAPIData rateLimited)),
      Received (incoming EventTypeSlashCommand (SlashCommandData helloCommand))]
     emptyWorld =
   Exited (emptyWorld\<lparr>acks := [(request1, None)],
      logs := [LogCastEventsAPI (incoming EventTypeEventsAPI (SlashCommandData helloCommand)),
               LogCastSlashCommand, LogCastInteraction,
               LogFatal (Error ''unsupported event type'')]\<rparr>)"
proof -
  let ?e1 = "incoming EventTypeEventsAPI (SlashCommandData helloCommand)"
  let ?e2 = "incoming EventTypeSlashCommand OtherData"
  let ?e3 = "incoming EventTypeInteractive OtherData"
  let ?e5 = "incoming EventTypeEventsAPI (EventsAPIData rateLimited)"
  let ?e6 = "incoming EventTypeSlashCommand (SlashCommandData helloCommand)"
  let ?w1 = "logPrint (LogCastEventsAPI ?e1) emptyWorld"
  let ?w2 = "logPrint LogCastSlashCommand ?w1"
  let ?w3 = "logPrint LogCastInteraction ?w2"
  have t1: "evt_Type ?e1 = EventTypeEventsAPI \<and> (\<forall>e. evt_Data ?e1 \<noteq> EventsAPIData e)"
    by (simp add: incoming_def)
  have t2: "evt_Type ?e2 = EventTypeSlashCommand \<and> (\<forall>c. evt_Data ?e2 \<noteq> SlashCommandData c)"
    by (simp add: incoming_def)
  have t3: "evt_Type ?e3 = EventTypeInteractive \<and> (\<forall>i. evt_Data ?e3 \<noteq> InteractionData i)"
    by (simp add: incoming_def)
  have t4: "evt_Type connected = OtherEventType ''connected''"
    by (simp add: connected_def)
  have t5: "evt_Type ?e5 = EventTypeEventsAPI \<and> evt_Data ?e5 = EventsAPIData rateLimited
      \<and> eae_Type rateLimited = OtherEventsAPIType ''app_rate_limited''
      \<and> evt_Request ?e5 = Some request1"
    by (simp add: incoming_def rateLimited_def)
  have "routerLoop okClient
          [Received ?e1, Received ?e2, Received ?e3, Received connected, Received ?e5,
           Received ?e6] emptyWorld =
        routerLoop okClient
          [Received ?e2, Received ?e3, Received connected, Received ?e5, Received ?e6] ?w1"
    using skipped_events_and_unsupported_type [of ?e1 okClient _ emptyWorld] t1 by blast
  also have "\<dots> =
        routerLoop okClient [Received ?e3, Received connected, Received ?e5, Received ?e6] ?w2"
    using skipped_events_and_unsupported_type [of ?e2 okClient _ ?w1] t2 by blast
  also have "\<dots> = routerLoop okClient [Received connected, Received ?e5, Received ?e6] ?w3"
    using skipped_events_and_unsupported_type [of ?e3 okClient _ ?w2] t3 by blast
  also have "\<dots> = routerLoop okClient [Received ?e5, Received ?e6] ?w3"
    using skipped_events_and_unsupported_type [of connected okClient _ ?w3 "''connected''"] t4
    by blast
  also have "\<dots> =
        Exited (logPrint (LogFatal (Error ''unsupported event type''))
                  (Ack request1 None ?w3))"
    using skipped_events_and_unsupported_type
            [of ?e5 okClient "[Received ?e6]" ?w3 _ rateLimited "''app_rate_limited''" request1]
          t5
    by blast
  also have "\<dots> =
     Exited (emptyWorld\<lparr>acks := [(request1, None)],
      logs := [LogCastEventsAPI ?e1, LogCastSlashCommand, LogCastInteraction,
               LogFatal (Error ''unsupported event type'')]\<rparr>)"
    by (simp add: logPrint_def Ack_def emptyWorld_def)
  finally show ?thesis .
qed

end
